theory Spec2Isabelle
  imports Main
begin

section \<open>Data model\<close>

text \<open>
  The player is one React component (the variant with favorites and playlists). Its
  \<open>useState\<close> cells, the key-value storage, the file system, the audio engine and the
  dialogs it raises are gathered in one record \<open>app\<close>; every handler is a function of it.

  A song is \<open>{id, name, uri}\<close>, a playlist \<open>{id, name, songs}\<close> with \<open>songs\<close> a list of
  song ids. Strings are lists of 8-bit characters.
\<close>

record song =
  song_id :: string
  song_name :: string
  uri :: string

record playlist =
  playlist_id :: string
  playlist_name :: string
  playlist_songs :: "string list"

text \<open>
  What \<open>AsyncStorage.getItem\<close> finds under a key: nothing (or the empty string, both
  falsy), a text that \<open>JSON.parse\<close> rejects, or the JSON text of a value of the structure
  kept under that key, which is what \<open>JSON.stringify\<close> writes. A text that parses to a
  value of another shape is not represented.
\<close>

datatype 'a stored = Missing | Corrupt | Json 'a

datatype key = SONGS_KEY | FAVORITES_KEY | PLAYLISTS_KEY

datatype view = ViewAll | ViewFavorites | ViewPlaylist

text \<open>What a rejected promise or a failing call throws.\<close>

datatype exn = ParseError | StoreError | FileError | EngineError

text \<open>The playback status the engine reports, and the asset the document picker returns.\<close>

record status =
  status_isLoaded :: bool
  status_positionMillis :: int
  status_durationMillis :: int
  status_isPlaying :: bool
  status_didJustFinish :: bool

record asset =
  asset_name :: string
  asset_uri :: string

text \<open>
  The first fifteen fields are the component's state cells, under their own names. The
  others are the collaborators:
  \<^item> \<open>storage_songs\<close>, \<open>storage_favorites\<close>, \<open>storage_playlists\<close>: the values under the
    three storage keys; \<open>setItem_rejects\<close> tells for which keys a write is rejected;
  \<^item> \<open>documentDirectory\<close>, \<open>music_directory\<close> (does the music directory exist) and
    \<open>files\<close> (the uris of the files that exist); \<open>deleteAsync_rejects\<close> and
    \<open>copyAsync_rejects\<close> tell for which uris deleting and copying are rejected;
  \<^item> \<open>loaded_sounds\<close>: the sounds the engine holds loaded, each with its handle, the
    uri it plays and whether it is playing; \<open>next_sound\<close> is the next fresh handle and
    \<open>createAsync_rejects\<close> tells for which uris loading is rejected;
  \<^item> \<open>alerts\<close> and \<open>console\<close>: the dialogs shown by \<open>Alert.alert\<close> and the messages of
    \<open>console.error\<close>, oldest first.
  Reading the storage, asking whether a file exists and unloading a sound do not fail.
  Writing to the storage, deleting and copying a file and loading a sound can fail, and
  so can play, pause, stop and seek: the engine rejects them on a handle that is not
  loaded.
\<close>

record app =
  sound :: "nat option"
  songs :: "song list"
  currentSong :: "song option"
  isPlaying :: bool
  position :: int
  duration :: int
  isLoading :: bool
  favorites :: "string list"
  playlists :: "playlist list"
  showCreatePlaylist :: bool
  newPlaylistName :: string
  selectedPlaylist :: "playlist option"
  showAddToPlaylist :: bool
  songToAdd :: "song option"
  currentView :: view
  storage_songs :: "song list stored"
  storage_favorites :: "string list stored"
  storage_playlists :: "playlist list stored"
  setItem_rejects :: "key \<Rightarrow> bool"
  documentDirectory :: string
  music_directory :: bool
  files :: "string list"
  deleteAsync_rejects :: "string \<Rightarrow> bool"
  copyAsync_rejects :: "string \<Rightarrow> bool"
  loaded_sounds :: "(nat \<times> string \<times> bool) list"
  next_sound :: nat
  createAsync_rejects :: "string \<Rightarrow> bool"
  alerts :: "(string \<times> string) list"
  console :: "string list"

section \<open>Statements, exceptions and snapshots\<close>

text \<open>
  A handler body runs its effects one after the other; a throw skips the rest of the
  enclosing \<open>try\<close> block. A procedure maps the state it starts in to what it threw, if
  anything, and to the states after each of its effects, in order: every state an
  observer can see while it runs.
\<close>

type_synonym proc = "app \<Rightarrow> exn option \<times> app list"

definition thrown :: "proc \<Rightarrow> app \<Rightarrow> exn option" where
  "thrown p st = fst (p st)"

definition snapshots :: "proc \<Rightarrow> app \<Rightarrow> app list" where
  "snapshots p st = snd (p st)"

definition final :: "proc \<Rightarrow> app \<Rightarrow> app" where
  "final p st = last (st # snd (p st))"

definition skip :: proc where
  "skip = (\<lambda>st. (None, []))"

definition throw :: "exn \<Rightarrow> proc" where
  "throw e = (\<lambda>st. (Some e, []))"

definition atomic :: "(app \<Rightarrow> app) \<Rightarrow> proc" where
  "atomic f = (\<lambda>st. (None, [f st]))"

definition seq :: "proc \<Rightarrow> proc \<Rightarrow> proc" where
  "seq p q = (\<lambda>st. case p st of
       (Some e, tr) \<Rightarrow> (Some e, tr)
     | (None, tr) \<Rightarrow> (case q (last (st # tr)) of (r, tr') \<Rightarrow> (r, tr @ tr')))"

fun seqs :: "proc list \<Rightarrow> proc" where
  "seqs [] = skip"
| "seqs (p # ps) = seq p (seqs ps)"

definition try_catch :: "proc \<Rightarrow> proc \<Rightarrow> proc" where
  "try_catch p handler = (\<lambda>st. case p st of
       (None, tr) \<Rightarrow> (None, tr)
     | (Some e, tr) \<Rightarrow> (case handler (last (st # tr)) of (r, tr') \<Rightarrow> (r, tr @ tr')))"

text \<open>An awaited read: the value is read in the state reached, then used.\<close>

definition await :: "(app \<Rightarrow> 'a) \<Rightarrow> ('a \<Rightarrow> proc) \<Rightarrow> proc" where
  "await f k = (\<lambda>st. k (f st) st)"

section \<open>State setters, dialogs and collaborators\<close>

definition setSound :: "nat option \<Rightarrow> proc" where
  "setSound v = atomic (\<lambda>st. st\<lparr>sound := v\<rparr>)"

definition setSongs :: "song list \<Rightarrow> proc" where
  "setSongs v = atomic (\<lambda>st. st\<lparr>songs := v\<rparr>)"

definition setCurrentSong :: "song option \<Rightarrow> proc" where
  "setCurrentSong v = atomic (\<lambda>st. st\<lparr>currentSong := v\<rparr>)"

definition setIsPlaying :: "bool \<Rightarrow> proc" where
  "setIsPlaying v = atomic (\<lambda>st. st\<lparr>isPlaying := v\<rparr>)"

definition setPosition :: "int \<Rightarrow> proc" where
  "setPosition v = atomic (\<lambda>st. st\<lparr>position := v\<rparr>)"

definition setDuration :: "int \<Rightarrow> proc" where
  "setDuration v = atomic (\<lambda>st. st\<lparr>duration := v\<rparr>)"

definition setIsLoading :: "bool \<Rightarrow> proc" where
  "setIsLoading v = atomic (\<lambda>st. st\<lparr>isLoading := v\<rparr>)"

definition setFavorites :: "string list \<Rightarrow> proc" where
  "setFavorites v = atomic (\<lambda>st. st\<lparr>favorites := v\<rparr>)"

definition setPlaylists :: "playlist list \<Rightarrow> proc" where
  "setPlaylists v = atomic (\<lambda>st. st\<lparr>playlists := v\<rparr>)"

definition setShowCreatePlaylist :: "bool \<Rightarrow> proc" where
  "setShowCreatePlaylist v = atomic (\<lambda>st. st\<lparr>showCreatePlaylist := v\<rparr>)"

definition setNewPlaylistName :: "string \<Rightarrow> proc" where
  "setNewPlaylistName v = atomic (\<lambda>st. st\<lparr>newPlaylistName := v\<rparr>)"

definition setSelectedPlaylist :: "playlist option \<Rightarrow> proc" where
  "setSelectedPlaylist v = atomic (\<lambda>st. st\<lparr>selectedPlaylist := v\<rparr>)"

definition setShowAddToPlaylist :: "bool \<Rightarrow> proc" where
  "setShowAddToPlaylist v = atomic (\<lambda>st. st\<lparr>showAddToPlaylist := v\<rparr>)"

definition setSongToAdd :: "song option \<Rightarrow> proc" where
  "setSongToAdd v = atomic (\<lambda>st. st\<lparr>songToAdd := v\<rparr>)"

definition setCurrentView :: "view \<Rightarrow> proc" where
  "setCurrentView v = atomic (\<lambda>st. st\<lparr>currentView := v\<rparr>)"

definition alert :: "string \<Rightarrow> string \<Rightarrow> proc" where
  "alert title message = atomic (\<lambda>st. st\<lparr>alerts := alerts st @ [(title, message)]\<rparr>)"

definition console_error :: "string \<Rightarrow> proc" where
  "console_error message = atomic (\<lambda>st. st\<lparr>console := console st @ [message]\<rparr>)"

text \<open>\<open>AsyncStorage.setItem(key, JSON.stringify(v))\<close>, one definition for each key.\<close>

definition setItem_songs :: "song list \<Rightarrow> proc" where
  "setItem_songs v = await (\<lambda>st. setItem_rejects st SONGS_KEY) (\<lambda>rejected.
     if rejected then throw StoreError else atomic (\<lambda>st. st\<lparr>storage_songs := Json v\<rparr>))"

definition setItem_favorites :: "string list \<Rightarrow> proc" where
  "setItem_favorites v = await (\<lambda>st. setItem_rejects st FAVORITES_KEY) (\<lambda>rejected.
     if rejected then throw StoreError else atomic (\<lambda>st. st\<lparr>storage_favorites := Json v\<rparr>))"

definition setItem_playlists :: "playlist list \<Rightarrow> proc" where
  "setItem_playlists v = await (\<lambda>st. setItem_rejects st PLAYLISTS_KEY) (\<lambda>rejected.
     if rejected then throw StoreError else atomic (\<lambda>st. st\<lparr>storage_playlists := Json v\<rparr>))"

text \<open>The file system: \<open>deleteAsync\<close>, \<open>copyAsync\<close>, \<open>makeDirectoryAsync\<close>.\<close>

definition deleteAsync :: "string \<Rightarrow> proc" where
  "deleteAsync u = await (\<lambda>st. deleteAsync_rejects st u) (\<lambda>rejected.
     if rejected then throw FileError else atomic (\<lambda>st. st\<lparr>files := removeAll u (files st)\<rparr>))"

definition copyAsync :: "string \<Rightarrow> string \<Rightarrow> proc" where
  "copyAsync from to = await (\<lambda>st. copyAsync_rejects st from) (\<lambda>rejected.
     if rejected then throw FileError
     else atomic (\<lambda>st. st\<lparr>files := List.insert to (files st)\<rparr>))"

definition makeDirectoryAsync :: proc where
  "makeDirectoryAsync = atomic (\<lambda>st. st\<lparr>music_directory := True\<rparr>)"

text \<open>
  The engine. \<open>createAsync\<close> with \<open>shouldPlay: true\<close> loads a sound that is playing and
  hands its handle to the rest of the block; \<open>unloadAsync\<close> releases a handle.
\<close>

definition createAsync :: "string \<Rightarrow> (nat \<Rightarrow> proc) \<Rightarrow> proc" where
  "createAsync u k = await (\<lambda>st. createAsync_rejects st u) (\<lambda>rejected.
     if rejected then throw EngineError
     else await next_sound (\<lambda>h.
       seq (atomic (\<lambda>st. st\<lparr>loaded_sounds := loaded_sounds st @ [(h, u, True)],
                             next_sound := Suc h\<rparr>))
           (k h)))"

definition set_playing :: "nat \<Rightarrow> bool \<Rightarrow> app \<Rightarrow> app" where
  "set_playing h b st = st\<lparr>loaded_sounds :=
     map (\<lambda>(h', u, p). if h' = h then (h', u, b) else (h', u, p)) (loaded_sounds st)\<rparr>"

definition live_handles :: "app \<Rightarrow> nat list" where
  "live_handles st = map fst (loaded_sounds st)"

text \<open>
  Unloading a sound that is not loaded does nothing. Play, pause, stop and seek go
  through the library's status operation, which throws on a handle that is not
  loaded and otherwise acts on the sound.
\<close>

definition unloadAsync :: "nat \<Rightarrow> proc" where
  "unloadAsync h = atomic (\<lambda>st. st\<lparr>loaded_sounds :=
     filter (\<lambda>(h', u, p). h' \<noteq> h) (loaded_sounds st)\<rparr>)"

definition performOperation :: "nat \<Rightarrow> (app \<Rightarrow> app) \<Rightarrow> proc" where
  "performOperation h f = await (\<lambda>st. h \<in> set (live_handles st)) (\<lambda>loaded.
     if loaded then atomic f else throw EngineError)"

definition stopAsync :: "nat \<Rightarrow> proc" where
  "stopAsync h = performOperation h (set_playing h False)"

definition pauseAsync :: "nat \<Rightarrow> proc" where
  "pauseAsync h = performOperation h (set_playing h False)"

definition playAsync :: "nat \<Rightarrow> proc" where
  "playAsync h = performOperation h (set_playing h True)"

definition setPositionAsync :: "nat \<Rightarrow> int \<Rightarrow> proc" where
  "setPositionAsync h v = performOperation h (\<lambda>st. st)"

section \<open>The handlers\<close>

text \<open>
  A handler is a closure of the render it was created in: the state cells it mentions
  are the values of that render (the argument \<open>r\<close>), whatever has been set since, while
  its effects act on the current state. \<open>invoke\<close> calls a handler of the current render.
\<close>

definition invoke :: "(app \<Rightarrow> proc) \<Rightarrow> proc" where
  "invoke handler = (\<lambda>st. handler st st)"

definition MUSIC_DIRECTORY :: "app \<Rightarrow> string" where
  "MUSIC_DIRECTORY st = documentDirectory st @ ''music/''"

definition load_songs :: proc where
  "load_songs = await storage_songs (\<lambda>savedSongsJson. case savedSongsJson of
       Missing \<Rightarrow> skip
     | Corrupt \<Rightarrow> throw ParseError
     | Json savedSongs \<Rightarrow>
         await (\<lambda>st. filter (\<lambda>song. uri song \<in> set (files st)) savedSongs)
           (\<lambda>existingSongs. seq (setSongs existingSongs)
              (if length existingSongs \<noteq> length savedSongs
               then setItem_songs existingSongs else skip)))"

definition load_favorites :: proc where
  "load_favorites = await storage_favorites (\<lambda>savedFavorites. case savedFavorites of
       Missing \<Rightarrow> skip
     | Corrupt \<Rightarrow> throw ParseError
     | Json v \<Rightarrow> setFavorites v)"

definition load_playlists :: proc where
  "load_playlists = await storage_playlists (\<lambda>savedPlaylists. case savedPlaylists of
       Missing \<Rightarrow> skip
     | Corrupt \<Rightarrow> throw ParseError
     | Json v \<Rightarrow> setPlaylists v)"

definition loadSavedData :: proc where
  "loadSavedData =
     seq (try_catch
            (seqs [await music_directory
                     (\<lambda>exists. if \<not> exists then makeDirectoryAsync else skip),
                   load_songs, load_favorites, load_playlists])
            (console_error ''Error loading saved data:''))
         (setIsLoading False)"

definition saveSongsToStorage :: "song list \<Rightarrow> proc" where
  "saveSongsToStorage songsList =
     try_catch (setItem_songs songsList) (console_error ''Error saving songs:'')"

definition saveFavorites :: "string list \<Rightarrow> proc" where
  "saveFavorites favList =
     try_catch (seq (setItem_favorites favList) (setFavorites favList))
       (console_error ''Error saving favorites:'')"

definition savePlaylists :: "playlist list \<Rightarrow> proc" where
  "savePlaylists playlistList =
     try_catch (seq (setItem_playlists playlistList) (setPlaylists playlistList))
       (console_error ''Error saving playlists:'')"

text \<open>
  \<open>pickSong\<close>: \<open>picked\<close> is the first asset of the picker's result, or \<open>None\<close> when the
  user cancelled; \<open>now1\<close> and \<open>now2\<close> are the two readings of \<open>Date.now()\<close>, as strings.
\<close>

definition pickSong :: "asset option \<Rightarrow> string \<Rightarrow> string \<Rightarrow> app \<Rightarrow> proc" where
  "pickSong picked now1 now2 r =
     try_catch
       (case picked of
          None \<Rightarrow> skip
        | Some file \<Rightarrow>
            (let fileName = (if asset_name file \<noteq> [] then asset_name file
                             else ''song_'' @ now1 @ ''.mp3'');
                 permanentUri = MUSIC_DIRECTORY r @ fileName;
                 newSong = \<lparr>song_id = now2, song_name = fileName, uri = permanentUri\<rparr>;
                 updatedSongs = songs r @ [newSong]
             in seqs [copyAsync (asset_uri file) permanentUri,
                      setSongs updatedSongs,
                      saveSongsToStorage updatedSongs,
                      alert ''Success'' ''Song added successfully!'']))
       (seq (console_error ''Error picking song:'') (alert ''Error'' ''Failed to add song''))"

definition playSong :: "song \<Rightarrow> app \<Rightarrow> proc" where
  "playSong sng r =
     try_catch
       (seq (case sound r of None \<Rightarrow> skip | Some h \<Rightarrow> unloadAsync h)
            (createAsync (uri sng) (\<lambda>newSound.
               seqs [setSound (Some newSound), setCurrentSong (Some sng), setIsPlaying True])))
       (seq (console_error ''Error playing song:'') (alert ''Error'' ''Failed to play song''))"

definition onPlaybackStatusUpdate :: "status \<Rightarrow> proc" where
  "onPlaybackStatusUpdate s =
     (if status_isLoaded s then
        seqs [setPosition (status_positionMillis s),
              setDuration (status_durationMillis s),
              setIsPlaying (status_isPlaying s),
              (if status_didJustFinish s then seq (setIsPlaying False) (setPosition 0)
               else skip)]
      else skip)"

text \<open>One tick of the 100 ms interval that runs while a sound is playing.\<close>

definition interval_tick :: "status \<Rightarrow> app \<Rightarrow> proc" where
  "interval_tick s r =
     (if isPlaying r \<and> sound r \<noteq> None then
        (if status_isLoaded s
         then seq (setPosition (status_positionMillis s)) (setDuration (status_durationMillis s))
         else skip)
      else skip)"

definition togglePlayPause :: "app \<Rightarrow> proc" where
  "togglePlayPause r =
     (case sound r of
        None \<Rightarrow> skip
      | Some h \<Rightarrow> if isPlaying r then pauseAsync h else playAsync h)"

definition stopSound :: "app \<Rightarrow> proc" where
  "stopSound r =
     (case sound r of
        None \<Rightarrow> skip
      | Some h \<Rightarrow> seqs [stopAsync h, unloadAsync h, setSound None, setCurrentSong None,
                        setIsPlaying False, setPosition 0, setDuration 0])"

definition seekTo :: "int \<Rightarrow> app \<Rightarrow> proc" where
  "seekTo v r = (case sound r of None \<Rightarrow> skip | Some h \<Rightarrow> setPositionAsync h v)"

definition deleteSong :: "string \<Rightarrow> app \<Rightarrow> proc" where
  "deleteSong songId r =
     try_catch
       (let songToDelete = find (\<lambda>s. song_id s = songId) (songs r);
            updatedSongs = filter (\<lambda>sng. song_id sng \<noteq> songId) (songs r);
            updatedFavorites = filter (\<lambda>i. i \<noteq> songId) (favorites r);
            updatedPlaylists =
              map (\<lambda>pl. pl\<lparr>playlist_songs := filter (\<lambda>i. i \<noteq> songId) (playlist_songs pl)\<rparr>)
                (playlists r)
        in seqs [
          (if map_option song_id (currentSong r) = Some songId then stopSound r else skip),
          (case songToDelete of
             None \<Rightarrow> skip
           | Some sd \<Rightarrow>
               if uri sd \<noteq> [] then
                 await (\<lambda>st. uri sd \<in> set (files st))
                   (\<lambda>exists. if exists then deleteAsync (uri sd) else skip)
               else skip),
          setSongs updatedSongs,
          saveSongsToStorage updatedSongs,
          (if length updatedFavorites \<noteq> length (favorites r)
           then saveFavorites updatedFavorites else skip),
          savePlaylists updatedPlaylists])
       (seq (console_error ''Error deleting song:'') (alert ''Error'' ''Failed to delete song''))"

definition toggleFavorite :: "string \<Rightarrow> app \<Rightarrow> proc" where
  "toggleFavorite songId r =
     (let isFavorite = songId \<in> set (favorites r);
          updatedFavorites = (if isFavorite then filter (\<lambda>i. i \<noteq> songId) (favorites r)
                              else favorites r @ [songId])
      in saveFavorites updatedFavorites)"

text \<open>
  \<open>String.prototype.trim\<close> on 8-bit characters: tab, line feed, vertical tab, form feed,
  carriage return, space and no-break space are removed at both ends.
\<close>

definition isWhiteSpace :: "char \<Rightarrow> bool" where
  "isWhiteSpace c = (of_char c \<in> {9, 10, 11, 12, 13, 32, 160 :: nat})"

definition trim :: "string \<Rightarrow> string" where
  "trim s = rev (dropWhile isWhiteSpace (rev (dropWhile isWhiteSpace s)))"

text \<open>\<open>createPlaylist\<close>: \<open>now\<close> is \<open>Date.now().toString()\<close>.\<close>

definition createPlaylist :: "string \<Rightarrow> app \<Rightarrow> proc" where
  "createPlaylist now r =
     (if trim (newPlaylistName r) = [] then
        alert ''Error'' ''Please enter a playlist name''
      else
        (let newPlaylist = \<lparr>playlist_id = now, playlist_name = trim (newPlaylistName r),
                             playlist_songs = []\<rparr>;
             updatedPlaylists = playlists r @ [newPlaylist]
         in seqs [savePlaylists updatedPlaylists, setNewPlaylistName [],
                  setShowCreatePlaylist False]))"

text \<open>
  \<open>deletePlaylist\<close> opens a dialog; \<open>confirmed\<close> tells whether the user presses its
  Delete button, whose handler does the removal.
\<close>

definition deletePlaylist :: "string \<Rightarrow> bool \<Rightarrow> app \<Rightarrow> proc" where
  "deletePlaylist playlistId confirmed r =
     seq (alert ''Delete Playlist'' ''Are you sure you want to delete this playlist?'')
       (if confirmed then
          seq (savePlaylists (filter (\<lambda>p. playlist_id p \<noteq> playlistId) (playlists r)))
            (if map_option playlist_id (selectedPlaylist r) = Some playlistId
             then seq (setSelectedPlaylist None) (setCurrentView ViewAll) else skip)
        else skip)"

definition addToPlaylist :: "string \<Rightarrow> app \<Rightarrow> proc" where
  "addToPlaylist playlistId r =
     (case songToAdd r of
        None \<Rightarrow> skip
      | Some sta \<Rightarrow>
          (let updatedPlaylists =
                 map (\<lambda>pl. if playlist_id pl = playlistId then
                              (if song_id sta \<notin> set (playlist_songs pl)
                               then pl\<lparr>playlist_songs := playlist_songs pl @ [song_id sta]\<rparr>
                               else pl)
                            else pl) (playlists r)
           in seqs [savePlaylists updatedPlaylists, setShowAddToPlaylist False,
                    setSongToAdd None]))"

text \<open>The handler of the add-to-playlist button of a song row.\<close>

definition openAddToPlaylist :: "song \<Rightarrow> proc" where
  "openAddToPlaylist item = seq (setSongToAdd (Some item)) (setShowAddToPlaylist True)"

text \<open>
  Calling \<open>addSongToPlaylist(playlistId, song)\<close> is pressing the add button of the
  song's row and then choosing the playlist in the dialog, which by then has been
  rendered again.
\<close>

definition addSongToPlaylist :: "string \<Rightarrow> song \<Rightarrow> proc" where
  "addSongToPlaylist playlistId item =
     seq (openAddToPlaylist item) (invoke (addToPlaylist playlistId))"

section \<open>Sequences of user and engine events\<close>

text \<open>
  Everything that can happen to the mounted component: the handlers the view binds to
  its controls (the small ones written inline in the view are spelled out in
  \<open>handler\<close>), the engine's status callback and the interval tick. Each event runs to
  its end, on the handlers of the latest render, before the next one starts. A handler
  that throws (the stop, play, pause and seek buttons have no \<open>try\<close> block) leaves the
  state it had reached.
\<close>

datatype action =
    LoadSavedData
  | PickSong "asset option" string string
  | PlaySong song
  | PlaybackStatusUpdate status
  | IntervalTick status
  | TogglePlayPause
  | StopSound
  | SeekTo int
  | DeleteSong string
  | ToggleFavorite string
  | CreatePlaylist string
  | DeletePlaylist string bool
  | AddToPlaylist string
  | OpenAddToPlaylist song
  | CancelAddToPlaylist
  | OpenCreatePlaylist
  | ChangeNewPlaylistName string
  | CancelCreatePlaylist
  | ShowAll
  | ShowFavorites
  | ShowPlaylist playlist

fun handler :: "action \<Rightarrow> app \<Rightarrow> proc" where
  "handler LoadSavedData r = loadSavedData"
| "handler (PickSong picked now1 now2) r = pickSong picked now1 now2 r"
| "handler (PlaySong sng) r = playSong sng r"
| "handler (PlaybackStatusUpdate s) r = onPlaybackStatusUpdate s"
| "handler (IntervalTick s) r = interval_tick s r"
| "handler TogglePlayPause r = togglePlayPause r"
| "handler StopSound r = stopSound r"
| "handler (SeekTo v) r = seekTo v r"
| "handler (DeleteSong songId) r = deleteSong songId r"
| "handler (ToggleFavorite songId) r = toggleFavorite songId r"
| "handler (CreatePlaylist now) r = createPlaylist now r"
| "handler (DeletePlaylist playlistId confirmed) r = deletePlaylist playlistId confirmed r"
| "handler (AddToPlaylist playlistId) r = addToPlaylist playlistId r"
| "handler (OpenAddToPlaylist item) r = openAddToPlaylist item"
| "handler CancelAddToPlaylist r = seq (setShowAddToPlaylist False) (setSongToAdd None)"
| "handler OpenCreatePlaylist r = setShowCreatePlaylist True"
| "handler (ChangeNewPlaylistName text) r = setNewPlaylistName text"
| "handler CancelCreatePlaylist r = seq (setShowCreatePlaylist False) (setNewPlaylistName [])"
| "handler ShowAll r = seq (setCurrentView ViewAll) (setSelectedPlaylist None)"
| "handler ShowFavorites r = seq (setCurrentView ViewFavorites) (setSelectedPlaylist None)"
| "handler (ShowPlaylist pl) r = seq (setSelectedPlaylist (Some pl)) (setCurrentView ViewPlaylist)"

definition perform :: "action \<Rightarrow> proc" where
  "perform a = invoke (handler a)"

fun run :: "action list \<Rightarrow> app \<Rightarrow> app" where
  "run [] st = st"
| "run (a # as) st = run as (final (perform a) st)"

section \<open>Invariants and observations\<close>

text \<open>
  I1: every favorite id is the id of a song of the list. I2: so is every id in every
  playlist. I3: no playlist holds an id twice. I5: the engine holds at most one sound
  loaded.
\<close>

definition I1 :: "app \<Rightarrow> bool" where
  "I1 st = list_all (\<lambda>i. i \<in> set (map song_id (songs st))) (favorites st)"

definition I2 :: "app \<Rightarrow> bool" where
  "I2 st = list_all (\<lambda>pl. list_all (\<lambda>i. i \<in> set (map song_id (songs st))) (playlist_songs pl))
     (playlists st)"

definition I3 :: "app \<Rightarrow> bool" where
  "I3 st = list_all (\<lambda>pl. distinct (playlist_songs pl)) (playlists st)"

definition I5 :: "app \<Rightarrow> bool" where
  "I5 st = (length (loaded_sounds st) \<le> 1)"

text \<open>
  Between two events the component owns whatever the engine holds: a loaded sound is
  the one in the \<open>sound\<close> cell. And a current song comes with a sound.
\<close>

definition engine_inv :: "app \<Rightarrow> bool" where
  "engine_inv st = (I5 st \<and> list_all (\<lambda>h. sound st = Some h) (live_handles st))"

definition session_inv :: "app \<Rightarrow> bool" where
  "session_inv st = (currentSong st \<noteq> None \<longrightarrow> sound st \<noteq> None)"

text \<open>The playback session, its idle state, and the catalog in memory, in storage and on file.\<close>

definition session_of :: "app \<Rightarrow> nat option \<times> song option \<times> bool \<times> int \<times> int" where
  "session_of st = (sound st, currentSong st, isPlaying st, position st, duration st)"

definition Idle :: "app \<Rightarrow> bool" where
  "Idle st = (session_of st = (None, None, False, 0, 0))"

definition memory_of :: "app \<Rightarrow> song list \<times> string list \<times> playlist list" where
  "memory_of st = (songs st, favorites st, playlists st)"

definition persisted_of ::
  "app \<Rightarrow> song list stored \<times> string list stored \<times> playlist list stored \<times> string list" where
  "persisted_of st = (storage_songs st, storage_favorites st, storage_playlists st, files st)"

text \<open>
  The part of \<open>loadSavedData\<close> that reads the songs throws when the stored text does not
  parse, or when some file is missing and the write of the shortened list is rejected.
\<close>

definition songs_load_throws :: "app \<Rightarrow> bool" where
  "songs_load_throws st = (case storage_songs st of
       Missing \<Rightarrow> False
     | Corrupt \<Rightarrow> True
     | Json savedSongs \<Rightarrow>
         length (filter (\<lambda>sng. uri sng \<in> set (files st)) savedSongs) \<noteq> length savedSongs
         \<and> setItem_rejects st SONGS_KEY)"

text \<open>The session together with the engine, and the catalog wherever it is kept.\<close>

definition playback_of ::
  "app \<Rightarrow> (nat option \<times> song option \<times> bool \<times> int \<times> int) \<times> (nat \<times> string \<times> bool) list" where
  "playback_of st = (session_of st, loaded_sounds st)"

definition catalog_of ::
  "app \<Rightarrow> (song list \<times> string list \<times> playlist list) \<times>
     (song list stored \<times> string list stored \<times> playlist list stored \<times> string list)" where
  "catalog_of st = (memory_of st, persisted_of st)"

text \<open>The component as mounted, before any effect has run, in a given environment.\<close>

definition mounted :: "app \<Rightarrow> app" where
  "mounted env = env\<lparr>sound := None, songs := [], currentSong := None, isPlaying := False,
     position := 0, duration := 0, isLoading := True, favorites := [], playlists := [],
     showCreatePlaylist := False, newPlaylistName := [], selectedPlaylist := None,
     showAddToPlaylist := False, songToAdd := None, currentView := ViewAll,
     loaded_sounds := []\<rparr>"

section \<open>Example states\<close>

text \<open>
  A freshly mounted component in an environment where nothing is stored and nothing
  fails; the two songs and the playlist of the deletion scenario, a third song and a
  second playlist; the scenario itself, and with both playlists; and the scenario while
  the second song is playing.
\<close>

definition fresh_app :: app where
  "fresh_app = \<lparr>sound = None, songs = [], currentSong = None, isPlaying = False,
     position = 0, duration = 0, isLoading = True, favorites = [], playlists = [],
     showCreatePlaylist = False, newPlaylistName = [], selectedPlaylist = None,
     showAddToPlaylist = False, songToAdd = None, currentView = ViewAll,
     storage_songs = Missing, storage_favorites = Missing, storage_playlists = Missing,
     setItem_rejects = (\<lambda>k. False), documentDirectory = ''file:///data/'',
     music_directory = True, files = [], deleteAsync_rejects = (\<lambda>u. False),
     copyAsync_rejects = (\<lambda>u. False), loaded_sounds = [], next_sound = 0,
     createAsync_rejects = (\<lambda>u. False), alerts = [], console = []\<rparr>"

definition song_a :: song where
  "song_a = \<lparr>song_id = ''1'', song_name = ''a.mp3'', uri = ''file:///data/music/a.mp3''\<rparr>"

definition song_b :: song where
  "song_b = \<lparr>song_id = ''2'', song_name = ''b.mp3'', uri = ''file:///data/music/b.mp3''\<rparr>"

definition song_c :: song where
  "song_c = \<lparr>song_id = ''3'', song_name = ''c.mp3'', uri = ''file:///data/music/c.mp3''\<rparr>"

definition mix :: playlist where
  "mix = \<lparr>playlist_id = ''p1'', playlist_name = ''Mix'', playlist_songs = [''1'', ''2'']\<rparr>"

definition later :: playlist where
  "later = \<lparr>playlist_id = ''p2'', playlist_name = ''Later'', playlist_songs = [''2'']\<rparr>"

definition scenario_app :: app where
  "scenario_app = fresh_app\<lparr>songs := [song_a, song_b], favorites := [''1''],
     playlists := [mix], isLoading := False,
     storage_songs := Json [song_a, song_b], storage_favorites := Json [''1''],
     storage_playlists := Json [mix],
     files := [''file:///data/music/a.mp3'', ''file:///data/music/b.mp3'']\<rparr>"

definition two_lists_app :: app where
  "two_lists_app = scenario_app\<lparr>playlists := [mix, later],
     storage_playlists := Json [mix, later]\<rparr>"

definition playing_app :: app where
  "playing_app = scenario_app\<lparr>sound := Some 0, currentSong := Some song_b,
     isPlaying := True, position := 1500, duration := 180000,
     loaded_sounds := [(0, ''file:///data/music/b.mp3'', True)], next_sound := 1\<rparr>"

text \<open>
  The scenario with a file system that refuses every deletion; the scenario after song 2
  has gone from the song list only; a playing session for which loading the first song
  is rejected, and the state it is in after that song has been asked for; and a fresh
  component for which every load is rejected.
\<close>

definition undeletable_app :: app where
  "undeletable_app = scenario_app\<lparr>deleteAsync_rejects := (\<lambda>u. True)\<rparr>"

definition dangling_app :: app where
  "dangling_app = scenario_app\<lparr>songs := [song_a], storage_songs := Json [song_a],
     files := [''file:///data/music/a.mp3'']\<rparr>"

definition unplayable_app :: app where
  "unplayable_app =
     playing_app\<lparr>createAsync_rejects := (\<lambda>u. u = ''file:///data/music/a.mp3'')\<rparr>"


definition corrupt_file_app :: app where
  "corrupt_file_app = fresh_app\<lparr>createAsync_rejects := (\<lambda>u. True)\<rparr>"

text \<open>
  Stores found at start-up: one whose favorites do not parse, one whose playlists do not
  parse, and one that still refers to song 2 although only song 1 is stored.
\<close>

definition corrupt_favorites_app :: app where
  "corrupt_favorites_app =
     fresh_app\<lparr>storage_favorites := Corrupt, storage_playlists := Json [mix]\<rparr>"

definition corrupt_playlists_app :: app where
  "corrupt_playlists_app =
     fresh_app\<lparr>storage_favorites := Json [''1''], storage_playlists := Corrupt\<rparr>"

definition dangling_store_app :: app where
  "dangling_store_app = fresh_app\<lparr>storage_songs := Json [song_a],
     storage_favorites := Json [''1'', ''2''], storage_playlists := Json [mix],
     files := [''file:///data/music/a.mp3'']\<rparr>"

section \<open>Laws of sequencing\<close>

text \<open>
  \<open>wp p Q E\<close> holds in the states from which \<open>p\<close> ends in a state of \<open>Q\<close>, or throws in
  a state of \<open>E\<close>.
\<close>

definition wp :: "proc \<Rightarrow> (app \<Rightarrow> bool) \<Rightarrow> (app \<Rightarrow> bool) \<Rightarrow> app \<Rightarrow> bool" where
  "wp p Q E st = (case thrown p st of None \<Rightarrow> Q (final p st) | Some e \<Rightarrow> E (final p st))"


text \<open>\<open>keeps f p\<close>: no state that \<open>p\<close> passes through differs from its start in \<open>f\<close>.\<close>

definition keeps :: "(app \<Rightarrow> 'a) \<Rightarrow> proc \<Rightarrow> bool" where
  "keeps f p = (\<forall>st. \<forall>s \<in> set (snapshots p st). f s = f st)"

lemma final_in: "final p st = st \<or> final p st \<in> set (snapshots p st)"
  by (cases "snd (p st) = []") (auto simp: final_def snapshots_def)

lemma keeps_final: "keeps f p \<Longrightarrow> f (final p st) = f st"
  using final_in [of p st] by (auto simp: keeps_def)

lemma keeps_snapshot: "keeps f p \<Longrightarrow> s \<in> set (snapshots p st) \<Longrightarrow> f s = f st"
  by (simp add: keeps_def)

lemma skip_simps [simp]:
  "thrown skip st = None" "snapshots skip st = []" "final skip st = st"
  by (simp_all add: skip_def thrown_def snapshots_def final_def)

lemma throw_simps [simp]:
  "thrown (throw e) st = Some e" "snapshots (throw e) st = []" "final (throw e) st = st"
  by (simp_all add: throw_def thrown_def snapshots_def final_def)

lemma atomic_simps [simp]:
  "thrown (atomic f) st = None" "snapshots (atomic f) st = [f st]" "final (atomic f) st = f st"
  by (simp_all add: atomic_def thrown_def snapshots_def final_def)

lemma await_simps [simp]:
  "thrown (await f k) st = thrown (k (f st)) st"
  "snapshots (await f k) st = snapshots (k (f st)) st"
  "final (await f k) st = final (k (f st)) st"
  by (simp_all add: await_def thrown_def snapshots_def final_def)

lemma invoke_simps [simp]:
  "thrown (invoke h) st = thrown (h st) st"
  "snapshots (invoke h) st = snapshots (h st) st"
  "final (invoke h) st = final (h st) st"
  by (simp_all add: invoke_def thrown_def snapshots_def final_def)

lemma thrown_seq:
  "thrown (seq p q) st = (if thrown p st = None then thrown q (final p st) else thrown p st)"
  by (auto simp: seq_def thrown_def final_def split: prod.splits option.splits)

lemma snapshots_seq:
  "snapshots (seq p q) st =
     snapshots p st @ (if thrown p st = None then snapshots q (final p st) else [])"
  by (auto simp: seq_def thrown_def snapshots_def final_def split: prod.splits option.splits)

lemma final_seq:
  "final (seq p q) st = (if thrown p st = None then final q (final p st) else final p st)"
  by (auto simp: seq_def thrown_def final_def split: prod.splits option.splits)

lemma thrown_try_catch:
  "thrown (try_catch p h) st = (if thrown p st = None then None else thrown h (final p st))"
  by (auto simp: try_catch_def thrown_def final_def split: prod.splits option.splits)

lemma snapshots_try_catch:
  "snapshots (try_catch p h) st =
     snapshots p st @ (if thrown p st = None then [] else snapshots h (final p st))"
  by (auto simp: try_catch_def thrown_def snapshots_def final_def
      split: prod.splits option.splits)

lemma final_try_catch:
  "final (try_catch p h) st = (if thrown p st = None then final p st else final h (final p st))"
  by (auto simp: try_catch_def thrown_def final_def split: prod.splits option.splits)

lemmas proc_simps =
  thrown_seq snapshots_seq final_seq thrown_try_catch snapshots_try_catch final_try_catch

lemmas setter_defs =
  setSound_def setSongs_def setCurrentSong_def setIsPlaying_def setPosition_def
  setDuration_def setIsLoading_def setFavorites_def setPlaylists_def
  setShowCreatePlaylist_def setNewPlaylistName_def setSelectedPlaylist_def
  setShowAddToPlaylist_def setSongToAdd_def setCurrentView_def alert_def console_error_def

lemma keeps_skip [simp]: "keeps f skip"
  by (simp add: keeps_def)

lemma keeps_throw [simp]: "keeps f (throw e)"
  by (simp add: keeps_def)


lemma keeps_seq: "keeps f p \<Longrightarrow> keeps f q \<Longrightarrow> keeps f (seq p q)"
  unfolding keeps_def
proof (intro allI ballI)
  fix st s
  assume p: "\<forall>st. \<forall>s\<in>set (snapshots p st). f s = f st"
    and q: "\<forall>st. \<forall>s\<in>set (snapshots q st). f s = f st"
    and s: "s \<in> set (snapshots (seq p q) st)"
  have fin: "f (final p st) = f st"
    using p keeps_final [of f p st] by (simp add: keeps_def)
  from s consider "s \<in> set (snapshots p st)" | "s \<in> set (snapshots q (final p st))"
    by (auto simp: snapshots_seq split: if_splits)
  then show "f s = f st"
  proof cases
    case 1
    with p show ?thesis by blast
  next
    case 2
    with q have "f s = f (final p st)" by blast
    with fin show ?thesis by simp
  qed
qed


lemma keeps_await: "(\<And>x. keeps f (k x)) \<Longrightarrow> keeps f (await g k)"
  by (simp add: keeps_def)

lemma keeps_if: "keeps f p \<Longrightarrow> keeps f q \<Longrightarrow> keeps f (if c then p else q)"
  by simp


lemma thrown_try_catch_total: "(\<And>s. thrown h s = None) \<Longrightarrow> thrown (try_catch p h) st = None"
  by (simp add: proc_simps)

lemma wp_skip [simp]: "wp skip Q E st = Q st"
  by (simp add: wp_def)

lemma wp_throw [simp]: "wp (throw e) Q E st = E st"
  by (simp add: wp_def)

lemma wp_atomic [simp]: "wp (atomic g) Q E st = Q (g st)"
  by (simp add: wp_def)

lemma wp_await [simp]: "wp (await f k) Q E st = wp (k (f st)) Q E st"
  by (simp add: wp_def split: option.splits)

lemma wp_invoke [simp]: "wp (invoke h) Q E st = wp (h st) Q E st"
  by (simp add: wp_def split: option.splits)

lemma wp_seq [simp]: "wp (seq p q) Q E st = wp p (wp q Q E) E st"
  by (simp add: wp_def proc_simps split: option.splits)

lemma wp_try_catch [simp]: "wp (try_catch p h) Q E st = wp p Q (wp h Q E) st"
  by (simp add: wp_def proc_simps split: option.splits)

lemma wp_final: "thrown p st = None \<Longrightarrow> wp p Q E st = Q (final p st)"
  by (simp add: wp_def)

lemma wp_both: "wp p Q Q st \<Longrightarrow> Q (final p st)"
  by (simp add: wp_def split: option.splits)

lemma wp_mono:
  "wp p Q E st \<Longrightarrow> (\<And>s. Q s \<Longrightarrow> Q' s) \<Longrightarrow> (\<And>s. E s \<Longrightarrow> E' s) \<Longrightarrow> wp p Q' E' st"
  by (auto simp: wp_def split: option.splits)

lemma wp_keeps:
  "keeps f p \<Longrightarrow> (\<And>s. f s = f st \<Longrightarrow> Q s) \<Longrightarrow> (\<And>s. f s = f st \<Longrightarrow> E s) \<Longrightarrow> wp p Q E st"
  using keeps_final [of f p st] by (auto simp: wp_def split: option.splits)

lemma filter_same_length: "length (filter P xs) = length xs \<Longrightarrow> filter P xs = xs"
proof (induction xs)
  case Nil
  then show ?case by simp
next
  case (Cons x xs)
  show ?case
  proof (cases "P x")
    case True
    with Cons show ?thesis by simp
  next
    case False
    with Cons.prems length_filter_le [of P xs] show ?thesis by simp
  qed
qed

section \<open>What the handlers leave alone\<close>

lemmas io_defs = setItem_songs_def setItem_favorites_def setItem_playlists_def
  deleteAsync_def copyAsync_def makeDirectoryAsync_def

lemmas engine_defs = stopAsync_def pauseAsync_def playAsync_def unloadAsync_def
  setPositionAsync_def performOperation_def set_playing_def createAsync_def live_handles_def

lemmas save_defs = saveSongsToStorage_def saveFavorites_def savePlaylists_def

lemmas obs_defs = playback_of_def session_of_def catalog_of_def memory_of_def persisted_of_def

lemmas load_defs = loadSavedData_def load_songs_def load_favorites_def load_playlists_def

lemmas handler_defs = pickSong_def playSong_def onPlaybackStatusUpdate_def interval_tick_def
  togglePlayPause_def stopSound_def seekTo_def deleteSong_def toggleFavorite_def
  createPlaylist_def deletePlaylist_def addToPlaylist_def openAddToPlaylist_def

lemmas example_defs = fresh_app_def song_a_def song_b_def song_c_def mix_def later_def
  scenario_app_def two_lists_app_def playing_app_def

lemma keeps_playback_save:
  "keeps playback_of (saveSongsToStorage v)"
  "keeps playback_of (saveFavorites f)"
  "keeps playback_of (savePlaylists p)"
  by (auto simp: keeps_def proc_simps save_defs io_defs setter_defs obs_defs)

lemma keeps_playback_deleteAsync: "keeps playback_of (deleteAsync u)"
  by (auto simp: keeps_def io_defs obs_defs)

lemma keeps_playback_setters:
  "keeps playback_of (setSongs v)"
  "keeps playback_of (alert t m)"
  "keeps playback_of (console_error m)"
  by (auto simp: keeps_def setter_defs obs_defs)



lemma stopSound_rejected:
  "sound r = Some h \<Longrightarrow> h \<notin> set (live_handles st) \<Longrightarrow>
     snapshots (stopSound r) st = [] \<and> final (stopSound r) st = st"
  by (auto simp: stopSound_def engine_defs setter_defs proc_simps)


lemma thrown_deleteSong [simp]: "thrown (deleteSong s r) st = None"
  unfolding deleteSong_def by (rule thrown_try_catch_total) (simp add: proc_simps setter_defs)

text \<open>
  \<open>deleteSong\<close> is the stop of the current song, if it is the one deleted, followed by
  statements that leave the playback session and the engine alone.
\<close>

lemma deleteSong_split:
  "\<exists>rest. deleteSong songId r =
       try_catch
         (seq (if map_option song_id (currentSong r) = Some songId then stopSound r else skip)
              rest)
         (seq (console_error ''Error deleting song:'') (alert ''Error'' ''Failed to delete song''))
    \<and> keeps playback_of rest"
  apply (simp only: deleteSong_def Let_def seqs.simps)
  apply (rule exI)
  apply (rule conjI)
   apply (rule refl)
  apply (auto intro!: keeps_seq keeps_await keeps_playback_save keeps_playback_deleteAsync
      keeps_playback_setters split: option.splits)
  done

lemma thrown_playSong [simp]: "thrown (playSong sng r) st = None"
  unfolding playSong_def by (rule thrown_try_catch_total) (simp add: proc_simps setter_defs)

lemma thrown_loadSavedData [simp]: "thrown loadSavedData st = None"
  by (simp add: loadSavedData_def proc_simps setter_defs)

lemma thrown_save [simp]:
  "thrown (saveSongsToStorage v) st = None"
  "thrown (saveFavorites f) st = None"
  "thrown (savePlaylists p) st = None"
  by (simp_all add: save_defs proc_simps setter_defs)

lemma thrown_createPlaylist [simp]: "thrown (createPlaylist now r) st = None"
  by (simp add: createPlaylist_def Let_def proc_simps setter_defs)

lemma thrown_addSongToPlaylist [simp]: "thrown (addSongToPlaylist p item) st = None"
  by (simp add: addSongToPlaylist_def addToPlaylist_def openAddToPlaylist_def Let_def
      proc_simps setter_defs)

lemma count_list_distinct: "distinct xs \<Longrightarrow> x \<in> set xs \<Longrightarrow> count_list xs x = 1"
  by (induction xs) (auto simp: count_list_0_iff)

section \<open>The engine between events\<close>

lemma engine_inv_None: "engine_inv st \<Longrightarrow> sound st = None \<Longrightarrow> loaded_sounds st = []"
  by (cases "loaded_sounds st") (auto simp: engine_inv_def live_handles_def)

lemma unload_owned:
  "list_all (\<lambda>h'. h' = h) (map fst xs) \<Longrightarrow> filter (\<lambda>(h', u, p). h' \<noteq> h) xs = []"
  by (induction xs) auto

lemma engine_inv_Some:
  "engine_inv st \<Longrightarrow> sound st = Some h \<Longrightarrow>
     filter (\<lambda>(h', u, p). h' \<noteq> h) (loaded_sounds st) = []"
  by (rule unload_owned) (auto simp: engine_inv_def live_handles_def list_all_iff)

lemma handles_set_playing [simp]: "live_handles (set_playing h b st) = live_handles st"
  by (auto simp: live_handles_def set_playing_def split: prod.splits)

lemma length_set_playing [simp]:
  "length (loaded_sounds (set_playing h b st)) = length (loaded_sounds st)"
  by (simp add: set_playing_def)

lemma sound_set_playing [simp]: "sound (set_playing h b st) = sound st"
  by (simp add: set_playing_def)

lemma engine_inv_set_playing [simp]: "engine_inv (set_playing h b st) = engine_inv st"
  by (simp add: engine_inv_def I5_def)

lemma engine_inv_playback: "playback_of s = playback_of st \<Longrightarrow> engine_inv s = engine_inv st"
  by (simp add: obs_defs engine_inv_def I5_def live_handles_def)

lemma playSong_ok:
  assumes inv: "engine_inv st" and ok: "\<not> createAsync_rejects st (uri sng)"
  shows "wp (playSong sng st)
     (\<lambda>s1. loaded_sounds s1 = [(next_sound st, uri sng, True)] \<and>
            sound s1 = Some (next_sound st) \<and> currentSong s1 = Some sng \<and> isPlaying s1 \<and>
            next_sound s1 = Suc (next_sound st) \<and>
            createAsync_rejects s1 = createAsync_rejects st \<and> alerts s1 = alerts st)
     (\<lambda>_. False) st"
  using ok engine_inv_None [OF inv] engine_inv_Some [OF inv]
  by (auto simp: playSong_def engine_defs setter_defs split: option.splits)

lemma playSong_snapshots_I5:
  assumes inv: "engine_inv st"
  shows "\<forall>snap \<in> set (snapshots (playSong sng st) st). I5 snap"
  using engine_inv_None [OF inv] engine_inv_Some [OF inv]
  by (auto simp: playSong_def engine_defs setter_defs proc_simps I5_def split: option.splits)

lemma engine_inv_playSong:
  assumes inv: "engine_inv st"
  shows "wp (playSong sng st) engine_inv engine_inv st"
  using engine_inv_None [OF inv] engine_inv_Some [OF inv]
  by (auto simp: playSong_def engine_defs setter_defs engine_inv_def I5_def
      split: option.splits)

lemma engine_inv_stopSound:
  assumes inv: "engine_inv st"
  shows "wp (stopSound st) engine_inv engine_inv st"
proof (cases "sound st")
  case None
  with inv show ?thesis by (simp add: stopSound_def)
next
  case (Some h)
  show ?thesis
  proof (cases "h \<in> set (live_handles st)")
    case False
    with inv Some show ?thesis
      by (simp add: stopSound_def stopAsync_def performOperation_def)
  next
    case True
    have "filter (\<lambda>(h', u, p). h' \<noteq> h) (loaded_sounds (set_playing h False st)) = []"
      using inv Some by (intro engine_inv_Some) simp_all
    with True show ?thesis
      using Some
      by (simp add: stopSound_def stopAsync_def performOperation_def unloadAsync_def
          setter_defs engine_inv_def I5_def live_handles_def)
  qed
qed

lemma engine_inv_togglePlayPause:
  "engine_inv st \<Longrightarrow> wp (togglePlayPause st) engine_inv engine_inv st"
  by (auto simp: togglePlayPause_def pauseAsync_def playAsync_def performOperation_def
      split: option.splits)

lemma engine_inv_seekTo: "engine_inv st \<Longrightarrow> wp (seekTo v st) engine_inv engine_inv st"
  by (auto simp: seekTo_def setPositionAsync_def performOperation_def split: option.splits)

lemma engine_inv_deleteSong:
  assumes inv: "engine_inv st"
  shows "wp (deleteSong s st) engine_inv engine_inv st"
proof -
  let ?H = "seq (console_error ''Error deleting song:'') (alert ''Error'' ''Failed to delete song'')"
  let ?stop = "if map_option song_id (currentSong st) = Some s then stopSound st else skip"
  obtain rest where split: "deleteSong s st = try_catch (seq ?stop rest) ?H"
    and rest: "keeps playback_of rest"
    using deleteSong_split [of s st] by auto
  have handler: "keeps playback_of ?H"
    by (intro keeps_seq keeps_playback_setters)
  have same: "engine_inv s''" if "engine_inv s'" "playback_of s'' = playback_of s'" for s' s''
    using engine_inv_playback [OF that(2)] that(1) by simp
  have caught: "wp ?H engine_inv engine_inv s'" if "engine_inv s'" for s'
    by (rule wp_keeps [OF handler]) (rule same [OF that], assumption)+
  have tail: "wp rest engine_inv (wp ?H engine_inv engine_inv) s'" if "engine_inv s'" for s'
    using rest
  proof (rule wp_keeps)
    fix s'' assume "playback_of s'' = playback_of s'"
    with that have "engine_inv s''" by (rule same)
    then show "engine_inv s''" "wp ?H engine_inv engine_inv s''"
      by (simp_all only: caught)
  qed
  have "wp ?stop engine_inv engine_inv st"
    using inv by (simp add: engine_inv_stopSound)
  then have "wp ?stop (wp rest engine_inv (wp ?H engine_inv engine_inv))
      (wp ?H engine_inv engine_inv) st"
    by (rule wp_mono) (erule tail, erule caught)
  then show ?thesis
    by (simp only: split wp_try_catch wp_seq)
qed

text \<open>Every event leaves the engine owned by the component, with at most one sound loaded.\<close>

lemma engine_inv_handler:
  assumes inv: "engine_inv st"
  shows "wp (handler a st) engine_inv engine_inv st"
proof (cases a)
  case (PlaySong sng)
  with inv show ?thesis by (simp add: engine_inv_playSong)
next
  case (DeleteSong s)
  with inv show ?thesis by (simp add: engine_inv_deleteSong)
next
  case StopSound
  with inv show ?thesis by (simp add: engine_inv_stopSound)
next
  case TogglePlayPause
  with inv show ?thesis by (simp add: engine_inv_togglePlayPause)
next
  case (SeekTo v)
  with inv show ?thesis by (simp add: engine_inv_seekTo)
qed (insert inv, auto simp: load_defs handler_defs Let_def save_defs io_defs setter_defs
       engine_inv_def I5_def live_handles_def split: option.splits stored.splits)

lemma engine_inv_perform: "engine_inv st \<Longrightarrow> engine_inv (final (perform a) st)"
  using wp_both [OF engine_inv_handler, of st a] by (simp add: perform_def)

text \<open>Every event leaves a current song with a sound.\<close>

lemma session_inv_handler:
  assumes inv: "session_inv st"
  shows "wp (handler a st) session_inv session_inv st"
proof (cases a)
  case (DeleteSong s)
  show ?thesis
    using inv unfolding DeleteSong handler.simps
    by (auto simp: deleteSong_def stopSound_def Let_def save_defs io_defs setter_defs
        engine_defs session_inv_def split: option.splits)
qed (insert inv, auto simp: load_defs handler_defs Let_def save_defs io_defs setter_defs
       engine_defs session_inv_def split: option.splits stored.splits)

lemma session_inv_perform: "session_inv st \<Longrightarrow> session_inv (final (perform a) st)"
  using wp_both [OF session_inv_handler, of st a] by (simp add: perform_def)

lemma run_invariant:
  assumes step: "\<And>a st. P st \<Longrightarrow> P (final (perform a) st)"
  shows "P st \<Longrightarrow> P (run acts st)"
  by (induction acts arbitrary: st) (auto intro: step)

lemma session_inv_run: "session_inv (run acts (mounted env))"
  by (rule run_invariant [of session_inv, OF session_inv_perform])
    (simp_all add: session_inv_def mounted_def)

section \<open>Deleting a song\<close>






text \<open>
  C3, as the code has it. When the song's file exists and its deletion is rejected,
  \<open>deleteSong s\<close> reports the failure in an error dialog and removes nothing: the song
  list, the favorites and the playlists, in memory and in storage, and the files are what
  they were, so I1, I2 and I3 hold afterwards exactly when they held before.
\<close>

theorem deleteSong_rejected_deletion_keeps_catalog:
  assumes found: "find (\<lambda>x. song_id x = s) (songs st) = Some sd"
    and named: "uri sd \<noteq> []"
    and there: "uri sd \<in> set (files st)"
    and rej: "deleteAsync_rejects st (uri sd)"
  shows "thrown (invoke (deleteSong s)) st = None \<and>
     alerts (final (invoke (deleteSong s)) st) =
       alerts st @ [(''Error'', ''Failed to delete song'')] \<and>
     catalog_of (final (invoke (deleteSong s)) st) = catalog_of st \<and>
     I1 (final (invoke (deleteSong s)) st) = I1 st \<and>
     I2 (final (invoke (deleteSong s)) st) = I2 st \<and>
     I3 (final (invoke (deleteSong s)) st) = I3 st"
proof -
  let ?Q = "\<lambda>st'. alerts st' = alerts st @ [(''Error'', ''Failed to delete song'')] \<and>
     catalog_of st' = catalog_of st"
  have "wp (deleteSong s st) ?Q (\<lambda>_. False) st"
    using assms
    by (auto simp: deleteSong_def stopSound_def Let_def save_defs io_defs setter_defs
        engine_defs obs_defs split: option.splits)
  then have "?Q (final (invoke (deleteSong s)) st)"
    by (simp add: wp_final)
  then show ?thesis
    by (simp add: obs_defs I1_def I2_def I3_def)
qed

theorem deleteSong_rejected_deletion_keeps_catalog_witness:
  "find (\<lambda>x. song_id x = ''2'') (songs undeletable_app) = Some song_b \<and>
   uri song_b \<noteq> [] \<and> uri song_b \<in> set (files undeletable_app) \<and>
   deleteAsync_rejects undeletable_app (uri song_b) \<and>
   alerts (final (invoke (deleteSong ''2'')) undeletable_app) =
     [(''Error'', ''Failed to delete song'')] \<and>
   catalog_of (final (invoke (deleteSong ''2'')) undeletable_app) = catalog_of undeletable_app"
  using deleteSong_rejected_deletion_keeps_catalog [of "''2''" undeletable_app song_b]
  by (simp add: example_defs undeletable_app_def)

text \<open>
  C3 as written fails: in the scenario, with the deletion of the file of song 2
  rejected, \<open>deleteSong ''2''\<close> leaves song 2 in the song list and in the playlist.
\<close>

theorem deleteSong_rejected_deletion_counterexample:
  "find (\<lambda>x. song_id x = ''2'') (songs undeletable_app) = Some song_b \<and>
   uri song_b \<in> set (files undeletable_app) \<and>
   deleteAsync_rejects undeletable_app (uri song_b) \<and>
   songs (final (invoke (deleteSong ''2'')) undeletable_app) = [song_a, song_b] \<and>
   favorites (final (invoke (deleteSong ''2'')) undeletable_app) = [''1''] \<and>
   playlists (final (invoke (deleteSong ''2'')) undeletable_app) = [mix]"
proof -
  have "wp (deleteSong ''2'' undeletable_app)
     (\<lambda>st'. songs st' = [song_a, song_b] \<and> favorites st' = [''1''] \<and> playlists st' = [mix])
     (\<lambda>_. False) undeletable_app"
    by (simp add: deleteSong_def stopSound_def Let_def save_defs io_defs setter_defs
        engine_defs example_defs undeletable_app_def)
  then show ?thesis
    by (simp add: wp_final) (simp add: example_defs undeletable_app_def)
qed

text \<open>
  C10, as the code has it. When \<open>s\<close> is the id of no song of the list, is not the id of
  the current song, and occurs neither in the favorites nor in any playlist,
  \<open>deleteSong s\<close> ends without an error dialog and leaves the song list, the favorites,
  the playlists, the playback session, the engine and the files as they were.
\<close>

theorem deleteSong_unknown_id:
  assumes absent: "s \<notin> set (map song_id (songs st))"
    and other: "map_option song_id (currentSong st) \<noteq> Some s"
    and nofav: "s \<notin> set (favorites st)"
    and nopl: "\<forall>pl \<in> set (playlists st). s \<notin> set (playlist_songs pl)"
  shows "thrown (invoke (deleteSong s)) st = None \<and>
     alerts (final (invoke (deleteSong s)) st) = alerts st \<and>
     memory_of (final (invoke (deleteSong s)) st) = memory_of st \<and>
     playback_of (final (invoke (deleteSong s)) st) = playback_of st \<and>
     files (final (invoke (deleteSong s)) st) = files st"
proof -
  have none: "find (\<lambda>x. song_id x = s) (songs st) = None"
    using absent by (auto simp: find_None_iff)
  have sgs: "filter (\<lambda>x. song_id x \<noteq> s) (songs st) = songs st"
    using absent by (auto simp: filter_id_conv)
  have favs: "filter (\<lambda>i. i \<noteq> s) (favorites st) = favorites st"
    using nofav by (auto simp: filter_id_conv)
  have pls: "map (\<lambda>pl. pl\<lparr>playlist_songs := filter (\<lambda>i. i \<noteq> s) (playlist_songs pl)\<rparr>)
      (playlists st) = playlists st"
  proof (intro map_idI)
    fix pl assume "pl \<in> set (playlists st)"
    with nopl have "filter (\<lambda>i. i \<noteq> s) (playlist_songs pl) = playlist_songs pl"
      by (auto simp: filter_id_conv)
    then show "pl\<lparr>playlist_songs := filter (\<lambda>i. i \<noteq> s) (playlist_songs pl)\<rparr> = pl"
      by simp
  qed
  let ?Q = "\<lambda>st'. alerts st' = alerts st \<and> memory_of st' = memory_of st \<and>
     playback_of st' = playback_of st \<and> files st' = files st"
  have "wp (deleteSong s st) ?Q (\<lambda>_. False) st"
    using other
    by (auto simp: deleteSong_def Let_def none sgs favs pls save_defs io_defs setter_defs
        obs_defs)
  then show ?thesis
    by (simp add: wp_final)
qed

theorem deleteSong_unknown_id_witness:
  "''7'' \<notin> set (map song_id (songs scenario_app)) \<and> currentSong scenario_app = None \<and>
   ''7'' \<notin> set (favorites scenario_app) \<and>
   ''7'' \<notin> set (concat (map playlist_songs (playlists scenario_app))) \<and>
   thrown (invoke (deleteSong ''7'')) scenario_app = None \<and>
   memory_of (final (invoke (deleteSong ''7'')) scenario_app) = memory_of scenario_app \<and>
   playback_of (final (invoke (deleteSong ''7'')) scenario_app) = playback_of scenario_app"
  using deleteSong_unknown_id [of "''7''" scenario_app]
  by (simp add: example_defs)

text \<open>
  C10 as written fails: with song 2 gone from the song list but still in the playlist,
  \<open>deleteSong ''2''\<close> changes the playlist.
\<close>

theorem deleteSong_unknown_id_counterexample:
  "''2'' \<notin> set (map song_id (songs dangling_app)) \<and> currentSong dangling_app = None \<and>
   favorites dangling_app = [''1''] \<and> playlists dangling_app = [mix] \<and>
   playlists (final (invoke (deleteSong ''2'')) dangling_app) =
     [\<lparr>playlist_id = ''p1'', playlist_name = ''Mix'', playlist_songs = [''1'']\<rparr>]"
proof -
  have "wp (deleteSong ''2'' dangling_app)
     (\<lambda>st'. playlists st' =
        [\<lparr>playlist_id = ''p1'', playlist_name = ''Mix'', playlist_songs = [''1'']\<rparr>])
     (\<lambda>_. False) dangling_app"
    by (simp add: deleteSong_def stopSound_def Let_def save_defs io_defs setter_defs
        engine_defs example_defs dangling_app_def)
  then show ?thesis
    by (simp add: wp_final) (simp add: example_defs dangling_app_def)
qed

section \<open>Loading the saved data\<close>

text \<open>
  C9, as the code has it. \<open>loadSavedData\<close> never throws and ends the loading state. It
  reads songs, favorites and playlists in this order inside one \<open>try\<close> block: a missing
  key leaves its cell as it was (empty at start-up) and the reading goes on; a text that
  does not parse leaves its cell and the cells of the keys read after it as they were,
  while the cells read before it are loaded. So the playlists are loaded only if neither
  the songs part nor the parse of the favorites has thrown.
\<close>

theorem loadSavedData_in_order:
  "thrown loadSavedData st = None \<and>
   isLoading (final loadSavedData st) = False \<and>
   songs (final loadSavedData st) =
     (case storage_songs st of
        Json savedSongs \<Rightarrow> filter (\<lambda>sng. uri sng \<in> set (files st)) savedSongs
      | _ \<Rightarrow> songs st) \<and>
   favorites (final loadSavedData st) =
     (if songs_load_throws st then favorites st
      else case storage_favorites st of Json v \<Rightarrow> v | _ \<Rightarrow> favorites st) \<and>
   playlists (final loadSavedData st) =
     (if songs_load_throws st \<or> storage_favorites st = Corrupt then playlists st
      else case storage_playlists st of Json v \<Rightarrow> v | _ \<Rightarrow> playlists st)"
proof -
  let ?Q = "\<lambda>st'. isLoading st' = False \<and>
   songs st' =
     (case storage_songs st of
        Json savedSongs \<Rightarrow> filter (\<lambda>sng. uri sng \<in> set (files st)) savedSongs
      | _ \<Rightarrow> songs st) \<and>
   favorites st' =
     (if songs_load_throws st then favorites st
      else case storage_favorites st of Json v \<Rightarrow> v | _ \<Rightarrow> favorites st) \<and>
   playlists st' =
     (if songs_load_throws st \<or> storage_favorites st = Corrupt then playlists st
      else case storage_playlists st of Json v \<Rightarrow> v | _ \<Rightarrow> playlists st)"
  have "wp loadSavedData ?Q (\<lambda>_. False) st"
    by (auto simp: load_defs songs_load_throws_def io_defs setter_defs split: stored.splits)
  then show ?thesis
    by (simp add: wp_final)
qed

theorem loadSavedData_in_order_witness:
  "storage_favorites corrupt_playlists_app = Json [''1''] \<and>
   storage_playlists corrupt_playlists_app = Corrupt \<and>
   thrown loadSavedData corrupt_playlists_app = None \<and>
   favorites (final loadSavedData corrupt_playlists_app) = [''1''] \<and>
   playlists (final loadSavedData corrupt_playlists_app) = []"
  using loadSavedData_in_order [of corrupt_playlists_app]
  by (simp add: corrupt_playlists_app_def fresh_app_def songs_load_throws_def)

text \<open>
  C9 as written fails: with favorites that do not parse and a valid stored playlist, the
  playlist is not loaded.
\<close>

theorem loadSavedData_corrupt_favorites_counterexample:
  "storage_songs corrupt_favorites_app = Missing \<and>
   storage_favorites corrupt_favorites_app = Corrupt \<and>
   storage_playlists corrupt_favorites_app = Json [mix] \<and>
   playlists (final loadSavedData corrupt_favorites_app) = []"
proof -
  have "wp loadSavedData (\<lambda>st'. playlists st' = []) (\<lambda>_. False) corrupt_favorites_app"
    by (simp add: load_defs io_defs setter_defs corrupt_favorites_app_def fresh_app_def)
  then show ?thesis
    by (simp add: wp_final) (simp add: corrupt_favorites_app_def fresh_app_def)
qed

text \<open>
  C1, as the code has it. When the songs part does not throw and favorites and playlists
  are stored, \<open>loadSavedData\<close> loads both exactly as stored, whatever ids they hold, and
  leaves both as they are in storage; only the songs whose file is missing are dropped,
  from the list in memory and from the stored list.
\<close>

theorem loadSavedData_keeps_references:
  assumes "\<not> songs_load_throws st"
    and "storage_favorites st = Json favs" and "storage_playlists st = Json pls"
  shows "favorites (final loadSavedData st) = favs \<and>
     playlists (final loadSavedData st) = pls \<and>
     storage_favorites (final loadSavedData st) = Json favs \<and>
     storage_playlists (final loadSavedData st) = Json pls \<and>
     songs (final loadSavedData st) =
       (case storage_songs st of
          Json savedSongs \<Rightarrow> filter (\<lambda>sng. uri sng \<in> set (files st)) savedSongs
        | _ \<Rightarrow> songs st) \<and>
     storage_songs (final loadSavedData st) =
       (case storage_songs st of
          Json savedSongs \<Rightarrow> Json (filter (\<lambda>sng. uri sng \<in> set (files st)) savedSongs)
        | other \<Rightarrow> other)"
proof -
  let ?Q = "\<lambda>st'. favorites st' = favs \<and> playlists st' = pls \<and>
     storage_favorites st' = Json favs \<and> storage_playlists st' = Json pls \<and>
     songs st' =
       (case storage_songs st of
          Json savedSongs \<Rightarrow> filter (\<lambda>sng. uri sng \<in> set (files st)) savedSongs
        | _ \<Rightarrow> songs st) \<and>
     storage_songs st' =
       (case storage_songs st of
          Json savedSongs \<Rightarrow> Json (filter (\<lambda>sng. uri sng \<in> set (files st)) savedSongs)
        | other \<Rightarrow> other)"
  have "wp loadSavedData ?Q (\<lambda>_. False) st"
    using assms
    by (auto simp: load_defs songs_load_throws_def io_defs setter_defs
        dest: filter_same_length split: stored.splits)
  then show ?thesis
    by (simp add: wp_final)
qed

theorem loadSavedData_keeps_references_witness:
  "\<not> songs_load_throws dangling_store_app \<and>
   storage_favorites dangling_store_app = Json [''1'', ''2''] \<and>
   storage_playlists dangling_store_app = Json [mix] \<and>
   favorites (final loadSavedData dangling_store_app) = [''1'', ''2''] \<and>
   playlists (final loadSavedData dangling_store_app) = [mix] \<and>
   songs (final loadSavedData dangling_store_app) = [song_a]"
  using loadSavedData_keeps_references [of dangling_store_app "[''1'', ''2'']" "[mix]"]
  by (simp add: dangling_store_app_def fresh_app_def songs_load_throws_def song_a_def)

text \<open>
  C1 as written fails: started on a store whose favorites and playlist refer to song 2
  while only song 1 is stored, \<open>loadSavedData\<close> keeps the reference to song 2 in both,
  in memory and in storage, so I1 and I2 fail afterwards.
\<close>

theorem loadSavedData_no_pruning_counterexample:
  "songs (final loadSavedData dangling_store_app) = [song_a] \<and>
   favorites (final loadSavedData dangling_store_app) = [''1'', ''2''] \<and>
   playlists (final loadSavedData dangling_store_app) = [mix] \<and>
   storage_favorites (final loadSavedData dangling_store_app) = Json [''1'', ''2''] \<and>
   storage_playlists (final loadSavedData dangling_store_app) = Json [mix] \<and>
   \<not> I1 (final loadSavedData dangling_store_app) \<and>
   \<not> I2 (final loadSavedData dangling_store_app)"
proof -
  have "wp loadSavedData (\<lambda>st'. songs st' = [song_a] \<and> favorites st' = [''1'', ''2''] \<and>
      playlists st' = [mix] \<and> storage_favorites st' = Json [''1'', ''2''] \<and>
      storage_playlists st' = Json [mix]) (\<lambda>_. False) dangling_store_app"
    by (simp add: load_defs io_defs setter_defs example_defs dangling_store_app_def)
  then have *: "songs (final loadSavedData dangling_store_app) = [song_a] \<and>
   favorites (final loadSavedData dangling_store_app) = [''1'', ''2''] \<and>
   playlists (final loadSavedData dangling_store_app) = [mix] \<and>
   storage_favorites (final loadSavedData dangling_store_app) = Json [''1'', ''2''] \<and>
   storage_playlists (final loadSavedData dangling_store_app) = Json [mix]"
    by (simp add: wp_final)
  then show ?thesis
    by (simp add: I1_def I2_def song_a_def mix_def)
qed

section \<open>Playing a song\<close>

text \<open>
  C5. From a state in which the component owns what the engine holds, and with both
  loads accepted, \<open>playSong a\<close> then \<open>playSong b\<close> ends with exactly one sound loaded, the
  one of \<open>b\<close>, held in the \<open>sound\<close> cell, and with \<open>b\<close> the current song. No state passed
  through on the way has two sounds loaded: the sound of \<open>a\<close> is unloaded before the
  sound of \<open>b\<close> is created. And after any sequence of events at most one sound is loaded.
\<close>

theorem playSong_twice_one_handle:
  assumes inv: "engine_inv st"
    and okA: "\<not> createAsync_rejects st (uri a)" and okB: "\<not> createAsync_rejects st (uri b)"
  shows "loaded_sounds (final (invoke (playSong b)) (final (invoke (playSong a)) st)) =
           [(Suc (next_sound st), uri b, True)] \<and>
     sound (final (invoke (playSong b)) (final (invoke (playSong a)) st)) =
           Some (Suc (next_sound st)) \<and>
     currentSong (final (invoke (playSong b)) (final (invoke (playSong a)) st)) = Some b \<and>
     (\<forall>snap \<in> set (snapshots (invoke (playSong a)) st @
                    snapshots (invoke (playSong b)) (final (invoke (playSong a)) st)). I5 snap) \<and>
     (\<forall>acts. I5 (run acts st))"
proof -
  let ?st1 = "final (invoke (playSong a)) st"
  have first: "loaded_sounds ?st1 = [(next_sound st, uri a, True)] \<and>
      sound ?st1 = Some (next_sound st) \<and> next_sound ?st1 = Suc (next_sound st) \<and>
      createAsync_rejects ?st1 = createAsync_rejects st"
    using playSong_ok [OF inv okA] by (simp add: wp_final)
  have inv1: "engine_inv ?st1"
    using wp_both [OF engine_inv_playSong [OF inv]] by simp
  have okB1: "\<not> createAsync_rejects ?st1 (uri b)"
    using first okB by simp
  have second: "loaded_sounds (final (invoke (playSong b)) ?st1) =
        [(next_sound ?st1, uri b, True)] \<and>
      sound (final (invoke (playSong b)) ?st1) = Some (next_sound ?st1) \<and>
      currentSong (final (invoke (playSong b)) ?st1) = Some b"
    using playSong_ok [OF inv1 okB1] by (simp add: wp_final)
  have snaps: "\<forall>snap \<in> set (snapshots (invoke (playSong a)) st @
                    snapshots (invoke (playSong b)) ?st1). I5 snap"
    using playSong_snapshots_I5 [OF inv, of a] playSong_snapshots_I5 [OF inv1, of b] by auto
  have "engine_inv (run acts st)" for acts
    using inv by (rule run_invariant [rotated]) (rule engine_inv_perform)
  then have "\<forall>acts. I5 (run acts st)"
    by (simp add: engine_inv_def)
  with first second snaps show ?thesis
    by simp
qed

theorem playSong_twice_one_handle_witness:
  "engine_inv fresh_app \<and> \<not> createAsync_rejects fresh_app (uri song_a) \<and>
   \<not> createAsync_rejects fresh_app (uri song_b) \<and>
   loaded_sounds (final (invoke (playSong song_b)) (final (invoke (playSong song_a)) fresh_app)) =
     [(1, ''file:///data/music/b.mp3'', True)] \<and>
   sound (final (invoke (playSong song_b)) (final (invoke (playSong song_a)) fresh_app)) = Some 1 \<and>
   currentSong (final (invoke (playSong song_b)) (final (invoke (playSong song_a)) fresh_app)) =
     Some song_b \<and>
   I5 (run [PlaySong song_a, PlaySong song_b, TogglePlayPause, PlaySong song_a] fresh_app)"
proof -
  have inv: "engine_inv fresh_app"
    by (simp add: fresh_app_def engine_inv_def I5_def live_handles_def)
  have okA: "\<not> createAsync_rejects fresh_app (uri song_a)"
    and okB: "\<not> createAsync_rejects fresh_app (uri song_b)"
    by (simp_all add: fresh_app_def)
  note twice = playSong_twice_one_handle [OF inv okA okB]
  from twice have "I5 (run [PlaySong song_a, PlaySong song_b, TogglePlayPause, PlaySong song_a]
      fresh_app)"
    by blast
  moreover have "next_sound fresh_app = 0" "uri song_b = ''file:///data/music/b.mp3''"
    by (simp_all add: fresh_app_def song_b_def)
  ultimately show ?thesis
    using inv okA okB twice by simp
qed

text \<open>
  C6, as the code has it. When the load of the song is rejected, \<open>playSong\<close> reports it in
  an error dialog, creates no handle and leaves no sound loaded in the engine, so I5
  holds; and a session that was idle is idle afterwards.
\<close>

theorem playSong_rejected:
  assumes inv: "engine_inv st" and rej: "createAsync_rejects st (uri sng)"
  shows "thrown (invoke (playSong sng)) st = None \<and>
     alerts (final (invoke (playSong sng)) st) =
       alerts st @ [(''Error'', ''Failed to play song'')] \<and>
     loaded_sounds (final (invoke (playSong sng)) st) = [] \<and>
     next_sound (final (invoke (playSong sng)) st) = next_sound st \<and>
     I5 (final (invoke (playSong sng)) st) \<and>
     (Idle st \<longrightarrow> Idle (final (invoke (playSong sng)) st))"
proof -
  let ?Q = "\<lambda>st'. alerts st' = alerts st @ [(''Error'', ''Failed to play song'')] \<and>
     loaded_sounds st' = [] \<and> next_sound st' = next_sound st \<and> session_of st' = session_of st"
  have "wp (playSong sng st) ?Q (\<lambda>_. False) st"
    using rej engine_inv_None [OF inv] engine_inv_Some [OF inv]
    by (auto simp: playSong_def engine_defs setter_defs session_of_def split: option.splits)
  then show ?thesis
    by (simp add: wp_final Idle_def I5_def)
qed

theorem playSong_rejected_witness:
  "engine_inv corrupt_file_app \<and> createAsync_rejects corrupt_file_app (uri song_a) \<and>
   Idle corrupt_file_app \<and>
   Idle (final (invoke (playSong song_a)) corrupt_file_app) \<and>
   loaded_sounds (final (invoke (playSong song_a)) corrupt_file_app) = [] \<and>
   alerts (final (invoke (playSong song_a)) corrupt_file_app) =
     [(''Error'', ''Failed to play song'')]"
  using playSong_rejected [of corrupt_file_app song_a]
  by (simp add: corrupt_file_app_def fresh_app_def engine_inv_def I5_def live_handles_def
      Idle_def session_of_def)

text \<open>
  C6 as written fails: while song 2 is playing, a rejected \<open>playSong\<close> of song 1 leaves
  song 2 as the current song, its handle in the \<open>sound\<close> cell and the playing flag set.
\<close>

theorem playSong_rejected_counterexample:
  "engine_inv unplayable_app \<and> createAsync_rejects unplayable_app (uri song_a) \<and>
   currentSong (final (invoke (playSong song_a)) unplayable_app) = Some song_b \<and>
   sound (final (invoke (playSong song_a)) unplayable_app) = Some 0 \<and>
   isPlaying (final (invoke (playSong song_a)) unplayable_app) \<and>
   \<not> Idle (final (invoke (playSong song_a)) unplayable_app)"
proof -
  have "wp (playSong song_a unplayable_app)
     (\<lambda>st'. currentSong st' = Some song_b \<and> sound st' = Some 0 \<and> isPlaying st')
     (\<lambda>_. False) unplayable_app"
    by (simp add: playSong_def engine_defs setter_defs example_defs unplayable_app_def)
  then have "currentSong (final (invoke (playSong song_a)) unplayable_app) = Some song_b \<and>
   sound (final (invoke (playSong song_a)) unplayable_app) = Some 0 \<and>
   isPlaying (final (invoke (playSong song_a)) unplayable_app)"
    by (simp add: wp_final)
  then show ?thesis
    by (simp add: Idle_def session_of_def)
      (simp add: example_defs unplayable_app_def engine_inv_def I5_def live_handles_def)
qed

section \<open>Playlists\<close>

text \<open>
  What \<open>addSongToPlaylist\<close> leaves: the flags of the storage, and either the playlists
  as they were, when the write is rejected, or each playlist of the given id with the
  song's id appended unless it is there already, in memory and in storage.
\<close>

lemma addSongToPlaylist_wp:
  "wp (addSongToPlaylist p item)
     (\<lambda>st'. setItem_rejects st' = setItem_rejects st \<and>
        (if setItem_rejects st PLAYLISTS_KEY
         then playlists st' = playlists st \<and> storage_playlists st' = storage_playlists st
         else playlists st' =
                map (\<lambda>pl. if playlist_id pl = p then
                       (if song_id item \<notin> set (playlist_songs pl)
                        then pl\<lparr>playlist_songs := playlist_songs pl @ [song_id item]\<rparr>
                        else pl)
                     else pl) (playlists st) \<and>
              storage_playlists st' = Json (playlists st')))
     (\<lambda>_. False) st"
  by (auto simp: addSongToPlaylist_def addToPlaylist_def openAddToPlaylist_def Let_def save_defs
      io_defs setter_defs)

text \<open>
  C7. Adding the same song to the same playlist twice leaves the playlists that adding it
  once leaves. Adding keeps the number and order of the playlists, their ids and names,
  every playlist of another id as it is, and in a playlist of the given id the entries
  as they are, with at most the song's id appended. And when the write is accepted and no
  playlist held an id twice before, none does afterwards, every playlist of the given
  id holds the song's id exactly once, and storage holds the playlists of memory.
\<close>

theorem addSongToPlaylist_idempotent:
  "playlists (final (addSongToPlaylist p item) (final (addSongToPlaylist p item) st)) =
     playlists (final (addSongToPlaylist p item) st) \<and>
   list_all2 (\<lambda>old new.
        playlist_id new = playlist_id old \<and> playlist_name new = playlist_name old \<and>
        (playlist_id old \<noteq> p \<longrightarrow> new = old) \<and>
        (playlist_songs new = playlist_songs old \<or>
         playlist_songs new = playlist_songs old @ [song_id item]))
     (playlists st) (playlists (final (addSongToPlaylist p item) st)) \<and>
   (\<not> setItem_rejects st PLAYLISTS_KEY \<longrightarrow> I3 st \<longrightarrow>
      I3 (final (addSongToPlaylist p item) st) \<and>
      (\<forall>pl \<in> set (playlists (final (addSongToPlaylist p item) st)).
         playlist_id pl = p \<longrightarrow> count_list (playlist_songs pl) (song_id item) = 1) \<and>
      storage_playlists (final (addSongToPlaylist p item) st) =
        Json (playlists (final (addSongToPlaylist p item) st)))"
proof -
  define once where "once = final (addSongToPlaylist p item) st"
  define f :: "playlist \<Rightarrow> playlist" where "f = (\<lambda>pl. if playlist_id pl = p then
               (if song_id item \<notin> set (playlist_songs pl)
                then pl\<lparr>playlist_songs := playlist_songs pl @ [song_id item]\<rparr>
                else pl)
             else pl)"
  have wp_f: "wp (addSongToPlaylist p item)
     (\<lambda>st'. setItem_rejects st' = setItem_rejects s \<and>
        (if setItem_rejects s PLAYLISTS_KEY
         then playlists st' = playlists s \<and> storage_playlists st' = storage_playlists s
         else playlists st' = map f (playlists s) \<and>
              storage_playlists st' = Json (playlists st')))
     (\<lambda>_. False) s" for s
    unfolding f_def by (rule addSongToPlaylist_wp)
  have rej: "setItem_rejects once = setItem_rejects st"
    using wp_f [of st] by (simp add: wp_final once_def)
  have f_idem: "f (f pl) = f pl" for pl
    by (simp add: f_def)
  have f_frame: "playlist_id (f pl) = playlist_id pl \<and> playlist_name (f pl) = playlist_name pl \<and>
      (playlist_id pl \<noteq> p \<longrightarrow> f pl = pl) \<and>
      (playlist_songs (f pl) = playlist_songs pl \<or>
       playlist_songs (f pl) = playlist_songs pl @ [song_id item])" for pl
    by (simp add: f_def)
  have dist: "distinct (playlist_songs pl) \<Longrightarrow> distinct (playlist_songs (f pl))" for pl
    by (simp add: f_def)
  have cnt: "count_list (playlist_songs (f pl)) (song_id item) = 1"
    if "distinct (playlist_songs pl)" "playlist_id (f pl) = p" for pl
  proof (cases "song_id item \<in> set (playlist_songs pl)")
    case True
    with that show ?thesis by (simp add: f_def count_list_distinct)
  next
    case False
    with that show ?thesis by (simp add: f_def split: if_splits)
  qed
  show ?thesis
  proof (cases "setItem_rejects st PLAYLISTS_KEY")
    case True
    have one: "playlists once = playlists st"
      using wp_f [of st] True by (simp add: wp_final once_def)
    have two: "playlists (final (addSongToPlaylist p item) once) = playlists once"
      using wp_f [of once] True rej by (simp add: wp_final)
    show ?thesis
      using True one two unfolding once_def [symmetric]
      by (simp add: list_all2_same)
  next
    case False
    have one: "playlists once = map f (playlists st)"
      and stored: "storage_playlists once = Json (playlists once)"
      using wp_f [of st] False by (simp_all add: wp_final once_def)
    have "playlists (final (addSongToPlaylist p item) once) = map f (playlists once)"
      using wp_f [of once] False rej by (simp add: wp_final)
    then have two: "playlists (final (addSongToPlaylist p item) once) = playlists once"
      by (simp add: one f_idem)
    have rel: "list_all2 (\<lambda>old new.
        playlist_id new = playlist_id old \<and> playlist_name new = playlist_name old \<and>
        (playlist_id old \<noteq> p \<longrightarrow> new = old) \<and>
        (playlist_songs new = playlist_songs old \<or>
         playlist_songs new = playlist_songs old @ [song_id item]))
     (playlists st) (playlists once)"
      unfolding one list_all2_map2 by (rule list_all2_refl) (use f_frame in blast)
    have good: "I3 once \<and>
      (\<forall>pl \<in> set (playlists once).
         playlist_id pl = p \<longrightarrow> count_list (playlist_songs pl) (song_id item) = 1)"
      if "I3 st"
      using that dist cnt by (auto simp: I3_def list_all_iff one)
    show ?thesis
      using two rel good stored unfolding once_def [symmetric]
      by blast
  qed
qed

theorem addSongToPlaylist_idempotent_witness:
  "\<not> setItem_rejects two_lists_app PLAYLISTS_KEY \<and> I3 two_lists_app \<and>
   playlists two_lists_app = [mix, later] \<and>
   playlists (final (addSongToPlaylist ''p1'' song_c) two_lists_app) =
     [\<lparr>playlist_id = ''p1'', playlist_name = ''Mix'', playlist_songs = [''1'', ''2'', ''3'']\<rparr>,
      later] \<and>
   playlists (final (addSongToPlaylist ''p1'' song_c)
       (final (addSongToPlaylist ''p1'' song_c) two_lists_app)) =
     [\<lparr>playlist_id = ''p1'', playlist_name = ''Mix'', playlist_songs = [''1'', ''2'', ''3'']\<rparr>,
      later] \<and>
   I3 (final (addSongToPlaylist ''p1'' song_c) two_lists_app)"
proof -
  have w: "\<not> setItem_rejects two_lists_app PLAYLISTS_KEY" and i: "I3 two_lists_app"
    and p: "playlists two_lists_app = [mix, later]"
    by (simp_all add: example_defs I3_def)
  have "wp (addSongToPlaylist ''p1'' song_c)
     (\<lambda>st'. playlists st' =
        [\<lparr>playlist_id = ''p1'', playlist_name = ''Mix'',
          playlist_songs = [''1'', ''2'', ''3'']\<rparr>, later])
     (\<lambda>_. False) two_lists_app"
    by (simp add: addSongToPlaylist_def addToPlaylist_def openAddToPlaylist_def Let_def
        save_defs io_defs setter_defs example_defs)
  then have once: "playlists (final (addSongToPlaylist ''p1'' song_c) two_lists_app) =
     [\<lparr>playlist_id = ''p1'', playlist_name = ''Mix'', playlist_songs = [''1'', ''2'', ''3'']\<rparr>,
      later]"
    by (simp add: wp_final)
  note idem = addSongToPlaylist_idempotent [of "''p1''" song_c two_lists_app]
  from idem have twice:
    "playlists (final (addSongToPlaylist ''p1'' song_c)
       (final (addSongToPlaylist ''p1'' song_c) two_lists_app)) =
     playlists (final (addSongToPlaylist ''p1'' song_c) two_lists_app)"
    by (rule conjunct1)
  from idem w i have "I3 (final (addSongToPlaylist ''p1'' song_c) two_lists_app)"
    by blast
  with twice once w i p show ?thesis
    by (simp only: simp_thms)
qed

text \<open>
  C8. With \<open>name\<close> typed into the name field: when \<open>name\<close> trimmed is empty,
  \<open>createPlaylist\<close> raises the error dialog asking for a name and leaves the playlists, in
  memory and in storage, as they were; otherwise, the write being accepted, it raises no
  dialog and appends the playlist of the new id, the trimmed name and no songs to the
  playlists, which it stores.
\<close>

theorem createPlaylist_validates:
  "(trim name = [] \<longrightarrow>
      thrown (invoke (createPlaylist now)) (final (setNewPlaylistName name) st) = None \<and>
      alerts (final (invoke (createPlaylist now)) (final (setNewPlaylistName name) st)) =
        alerts st @ [(''Error'', ''Please enter a playlist name'')] \<and>
      playlists (final (invoke (createPlaylist now)) (final (setNewPlaylistName name) st)) =
        playlists st \<and>
      storage_playlists (final (invoke (createPlaylist now)) (final (setNewPlaylistName name) st)) =
        storage_playlists st) \<and>
   (trim name \<noteq> [] \<longrightarrow> \<not> setItem_rejects st PLAYLISTS_KEY \<longrightarrow>
      alerts (final (invoke (createPlaylist now)) (final (setNewPlaylistName name) st)) =
        alerts st \<and>
      playlists (final (invoke (createPlaylist now)) (final (setNewPlaylistName name) st)) =
        playlists st @ [\<lparr>playlist_id = now, playlist_name = trim name, playlist_songs = []\<rparr>] \<and>
      storage_playlists (final (invoke (createPlaylist now)) (final (setNewPlaylistName name) st)) =
        Json (playlists st @
          [\<lparr>playlist_id = now, playlist_name = trim name, playlist_songs = []\<rparr>]))"
proof -
  let ?typed = "final (setNewPlaylistName name) st"
  let ?new = "\<lparr>playlist_id = now, playlist_name = trim name, playlist_songs = []\<rparr>"
  let ?Q = "\<lambda>st'.
     (trim name = [] \<longrightarrow>
        alerts st' = alerts st @ [(''Error'', ''Please enter a playlist name'')] \<and>
        playlists st' = playlists st \<and> storage_playlists st' = storage_playlists st) \<and>
     (trim name \<noteq> [] \<longrightarrow> \<not> setItem_rejects st PLAYLISTS_KEY \<longrightarrow>
        alerts st' = alerts st \<and> playlists st' = playlists st @ [?new] \<and>
        storage_playlists st' = Json (playlists st @ [?new]))"
  have "wp (createPlaylist now ?typed) ?Q (\<lambda>_. False) ?typed"
    by (auto simp: createPlaylist_def Let_def save_defs io_defs setter_defs)
  then have "?Q (final (invoke (createPlaylist now)) ?typed)"
    by (simp add: wp_final)
  then show ?thesis
    by simp
qed

theorem createPlaylist_validates_witness:
  "trim ''  '' = [] \<and>
   alerts (final (invoke (createPlaylist ''1700000000000''))
      (final (setNewPlaylistName ''  '') scenario_app)) =
     [(''Error'', ''Please enter a playlist name'')] \<and>
   playlists (final (invoke (createPlaylist ''1700000000000''))
      (final (setNewPlaylistName ''  '') scenario_app)) = [mix] \<and>
   trim '' Road trip '' = ''Road trip'' \<and> \<not> setItem_rejects scenario_app PLAYLISTS_KEY \<and>
   playlists (final (invoke (createPlaylist ''1700000000000''))
      (final (setNewPlaylistName '' Road trip '') scenario_app)) =
     [mix, \<lparr>playlist_id = ''1700000000000'', playlist_name = ''Road trip'',
            playlist_songs = []\<rparr>]"
proof -
  have e: "trim ''  '' = []" and n: "trim '' Road trip '' = ''Road trip''"
    by (simp_all add: trim_def isWhiteSpace_def)
  have w: "\<not> setItem_rejects scenario_app PLAYLISTS_KEY"
    by (simp add: example_defs)
  show ?thesis
    using createPlaylist_validates [of "''  ''" "''1700000000000''" scenario_app]
      createPlaylist_validates [of "'' Road trip ''" "''1700000000000''" scenario_app] e n w
    by (simp add: example_defs)
qed

end
